theory Spec2Isabelle
  imports Complex_Main "HOL-Library.Sublist"
begin

section \<open>Strings of the program\<close>

text \<open>
  A Python \<open>str\<close> is modelled as a \<open>string\<close>: the list of the bytes of its UTF-8
  encoding. The functions below read characters one at a time and only ever test for
  ASCII characters, so scanning the bytes and scanning the code points give the same
  words. White space and letter case are the ASCII ones: the white space and the case
  folding of code points beyond ASCII are outside this model.
\<close>

definition is_space :: "char \<Rightarrow> bool" where
  \<comment> \<open>\<open>str.isspace\<close> on ASCII: tab, line feed, vertical tab, form feed, carriage
      return, the four separators 0x1c..0x1f and the blank.\<close>
  "is_space c = (let n = (of_char c :: nat) in (9 \<le> n \<and> n \<le> 13) \<or> (28 \<le> n \<and> n \<le> 32))"

definition lower_char :: "char \<Rightarrow> char" where
  "lower_char c =
     (let n = (of_char c :: nat) in if 65 \<le> n \<and> n \<le> 90 then char_of (n + 32) else c)"

definition lower :: "string \<Rightarrow> string" where
  \<comment> \<open>\<open>str.lower()\<close>\<close>
  "lower s = map lower_char s"

fun startswith :: "string \<Rightarrow> string \<Rightarrow> bool" where
  \<comment> \<open>\<open>s.startswith(p)\<close>\<close>
  "startswith s [] = True"
| "startswith [] (p # ps) = False"
| "startswith (c # cs) (p # ps) = (c = p \<and> startswith cs ps)"

fun str_in :: "string \<Rightarrow> string \<Rightarrow> bool" where
  \<comment> \<open>\<open>sub in s\<close> on two strings: \<open>sub\<close> occurs in \<open>s\<close> as a contiguous run\<close>
  "str_in sub [] = (sub = [])"
| "str_in sub (c # cs) = (startswith (c # cs) sub \<or> str_in sub cs)"

fun split_ws :: "string \<Rightarrow> string \<Rightarrow> string list" where
  \<comment> \<open>\<open>s.split()\<close> with no argument, \<open>cur\<close> the word being read: runs of white space
      separate the words, and no empty word is returned\<close>
  "split_ws cur [] = (if cur = [] then [] else [cur])"
| "split_ws cur (c # cs) =
     (if is_space c then (if cur = [] then split_ws [] cs else cur # split_ws [] cs)
      else split_ws (cur @ [c]) cs)"

definition py_split :: "string \<Rightarrow> string list" where
  "py_split s = split_ws [] s"

section \<open>helpers.py: the text cleaner\<close>

definition filter_out :: "char list" where
  "filter_out = [CHR ''.'', CHR '','', CHR '':'', CHR ''!'', CHR ''?'', CHR '';'',
                 CHR 0x22, CHR ''-'', CHR ''('', CHR '')'']"

function skip_citation :: "string \<Rightarrow> nat \<Rightarrow> nat" where
  \<comment> \<open>the inner loop \<open>while i + 1 < len(word) and word[i + 1] != "]": i += 1\<close>;
      the value is \<open>i\<close> when the loop ends\<close>
  "skip_citation word i =
     (if i + 1 < length word \<and> word ! (i + 1) \<noteq> CHR '']'' then skip_citation word (i + 1)
      else i)"
  by pat_completeness auto
termination
  by (relation "measure (\<lambda>(word, i). length word - i)") auto

declare skip_citation.simps [simp del]

function clean_characters :: "string \<Rightarrow> nat \<Rightarrow> bool \<Rightarrow> string \<Rightarrow> string" where
  \<comment> \<open>the loop \<open>while i < len(word)\<close> over one word, from position \<open>i\<close> with the flag
      \<open>skip_next\<close> and the characters kept so far\<close>
  "clean_characters word i skip_next cleaned =
     (if i < length word then
        (if skip_next then clean_characters word (i + 1) False cleaned
         else if word ! i \<in> set filter_out then clean_characters word (i + 1) False cleaned
         else if word ! i = CHR ''['' then
           clean_characters word (skip_citation word i + 1) True cleaned
         else clean_characters word (i + 1) False (cleaned @ [word ! i]))
      else cleaned)"
  by pat_completeness auto
termination
proof (relation "measure (\<lambda>(word, i, skip_next, cleaned). length word - i)", goal_cases)
  case 1
  show ?case by simp
next
  case (2 word i skip_next cleaned)
  then show ?case by simp
next
  case (3 word i skip_next cleaned)
  then show ?case by simp
next
  case (4 word i skip_next cleaned)
  have "j \<le> skip_citation w j" for w j
    by (induction w j rule: skip_citation.induct) (subst skip_citation.simps, auto)
  then have "i \<le> skip_citation word i" .
  with 4 show ?case by simp
next
  case (5 word i skip_next cleaned)
  then show ?case by simp
qed

declare clean_characters.simps [simp del]

definition clean_word :: "string \<Rightarrow> string" where
  \<comment> \<open>the body of \<open>for word in words_list\<close>: the joined kept characters of one word\<close>
  "clean_word word = clean_characters word 0 False []"

fun clean_words_loop :: "string list \<Rightarrow> string list \<Rightarrow> string list" where
  "clean_words_loop [] cleaned_words_list = cleaned_words_list"
| "clean_words_loop (word # words_list) cleaned_words_list =
     (let cleaned_word = clean_word word in
      if cleaned_word \<noteq> [] then clean_words_loop words_list (cleaned_words_list @ [cleaned_word])
      else clean_words_loop words_list cleaned_words_list)"

definition clean_words_list :: "string list \<Rightarrow> string list" where
  "clean_words_list words_list = clean_words_loop words_list []"


section \<open>helpers.py: the parsed page and the site\<close>

text \<open>
  The HTML parser is a library outside the repository. A parsed page is modelled by
  the answers to the three queries the program makes of it: the text of every
  \<open>p\<close> element, every \<open>ul\<close> element (whether a \<open>p\<close> sibling precedes it, whether
  one follows it, and the text of each of its \<open>li\<close> elements), and the \<open>href\<close>
  attribute of every \<open>a\<close> element (\<open>None\<close> when the attribute is absent), each in
  document order.
\<close>

record ul_element =
  previous_sibling_p :: bool
  next_sibling_p :: bool
  li_texts :: "string list"

record soup =
  p_texts :: "string list"
  ul_elements :: "ul_element list"
  a_hrefs :: "string option list"

text \<open>
  The site answers a request for a title with a page or with one of the three
  failures that \<open>scrape_page\<close> catches. A site answers a title the same way
  throughout a run. The state of a run is the list of the titles requested so far.
\<close>

datatype response = Page soup | HTTPError | Timeout | RequestException

type_synonym site = "string \<Rightarrow> response"

datatype py_error = AttributeError | ValueError | KeyError | ZeroDivisionError | OverflowError

definition scrape_page :: "site \<Rightarrow> string \<Rightarrow> string list \<Rightarrow> soup option \<times> string list" where
  \<comment> \<open>each \<open>except\<close> branch prints a message and returns \<open>None\<close>\<close>
  "scrape_page site title requests =
     ((case site title of
         Page page \<Rightarrow> Some page
       | HTTPError \<Rightarrow> None
       | Timeout \<Rightarrow> None
       | RequestException \<Rightarrow> None),
      requests @ [title])"

fun paragraphs_loop :: "string list \<Rightarrow> string list \<Rightarrow> string list" where
  "paragraphs_loop [] words_list = words_list"
| "paragraphs_loop (paragraph # paragraphs) words_list =
     paragraphs_loop paragraphs (words_list @ py_split paragraph)"

definition get_words_from_paragraphs :: "soup option \<Rightarrow> py_error + string list" where
  \<comment> \<open>\<open>soup.find_all\<close> on \<open>None\<close> raises AttributeError\<close>
  "get_words_from_paragraphs soup =
     (case soup of
        None \<Rightarrow> Inl AttributeError
      | Some page \<Rightarrow> Inr (paragraphs_loop (p_texts page) []))"

function py_replace :: "string \<Rightarrow> string \<Rightarrow> string \<Rightarrow> string" where
  \<comment> \<open>\<open>s.replace(old, new)\<close>: every occurrence of \<open>old\<close>, read from the left without
      overlap\<close>
  "py_replace old new [] = (if old = [] then new else [])"
| "py_replace old new (c # cs) =
     (if old = [] then new @ c # py_replace old new cs
      else if startswith (c # cs) old then new @ py_replace old new (drop (length old) (c # cs))
      else c # py_replace old new cs)"
  by pat_completeness auto
termination
  by (relation "measure (\<lambda>(old, new, s). length s)") auto

definition nbsp_en_dash :: string where
  \<comment> \<open>the two characters U+00A0 U+2013 in UTF-8\<close>
  "nbsp_en_dash = [CHR 0xC2, CHR 0xA0, CHR 0xE2, CHR 0x80, CHR 0x93]"

fun items_loop :: "string list \<Rightarrow> string list \<Rightarrow> string list" where
  "items_loop [] bullet_lists_organized = bullet_lists_organized"
| "items_loop (item # items) bullet_lists_organized =
     items_loop items (bullet_lists_organized @ [py_replace nbsp_en_dash [] item])"

fun bullets_loop :: "ul_element list \<Rightarrow> string list \<Rightarrow> string list" where
  "bullets_loop [] bullet_lists_organized = bullet_lists_organized"
| "bullets_loop (bullet # bullet_lists) bullet_lists_organized =
     (if previous_sibling_p bullet \<and> next_sibling_p bullet
      then bullets_loop bullet_lists (items_loop (li_texts bullet) bullet_lists_organized)
      else bullets_loop bullet_lists bullet_lists_organized)"

definition find_bullet_words :: "soup option \<Rightarrow> py_error + string list" where
  "find_bullet_words soup =
     (case soup of
        None \<Rightarrow> Inl AttributeError
      | Some page \<Rightarrow> Inr (bullets_loop (ul_elements page) []))"

fun bullet_words_loop :: "string list \<Rightarrow> string list \<Rightarrow> string list" where
  "bullet_words_loop [] individual_bullet_words = individual_bullet_words"
| "bullet_words_loop (bullet # bullets) individual_bullet_words =
     bullet_words_loop bullets (individual_bullet_words @ py_split bullet)"

definition clean_bullet_list :: "string list \<Rightarrow> string list" where
  "clean_bullet_list bullet_lists_organized =
     clean_words_list (bullet_words_loop bullet_lists_organized [])"

section \<open>helpers.py: the keyword matcher\<close>

text \<open>
  The vocabulary \<open>military_terminology\<close> is imported from a module that is not part of
  the sources at hand, so it is a parameter: the list \<open>keyword_list\<close>.
\<close>

fun keyword_loop :: "string list \<Rightarrow> string list \<Rightarrow> int \<Rightarrow> string list \<Rightarrow> int \<times> string list" where
  "keyword_loop [] keyword_list match_count matched_words = (match_count, matched_words)"
| "keyword_loop (word # words_list) keyword_list match_count matched_words =
     (let lowercase_word = lower word in
      if lowercase_word \<in> set keyword_list
      then keyword_loop words_list keyword_list (match_count + 1) (matched_words @ [lowercase_word])
      else keyword_loop words_list keyword_list match_count matched_words)"

definition find_keyword_matches :: "string list \<Rightarrow> string list \<Rightarrow> int \<times> string list" where
  "find_keyword_matches words_list keyword_list = keyword_loop words_list keyword_list 0 []"

section \<open>helpers.py: links\<close>

fun links_loop :: "string option list \<Rightarrow> string list \<Rightarrow> string list" where
  \<comment> \<open>\<open>if href:\<close> holds for a string that is not empty\<close>
  "links_loop [] list_links = list_links"
| "links_loop (href # links) list_links =
     (case href of
        None \<Rightarrow> links_loop links list_links
      | Some target \<Rightarrow>
          if target \<noteq> [] then links_loop links (list_links @ [target])
          else links_loop links list_links)"

definition find_links :: "soup option \<Rightarrow> py_error + string list" where
  "find_links soup =
     (case soup of
        None \<Rightarrow> Inl AttributeError
      | Some page \<Rightarrow> Inr (links_loop (a_hrefs page) []))"

fun first_round :: "string list \<Rightarrow> string list \<Rightarrow> string list" where
  "first_round [] list_links_filtered = list_links_filtered"
| "first_round (item # list_links) list_links_filtered =
     (if startswith item ''/wiki/'' then first_round list_links (list_links_filtered @ [item])
      else first_round list_links list_links_filtered)"

definition second_round_filter :: "string list" where
  "second_round_filter = [''/wiki/Main_page'', '':'']"

fun should_keep :: "string list \<Rightarrow> string \<Rightarrow> bool" where
  \<comment> \<open>the inner loop over the filter items, left at the first item found in the link\<close>
  "should_keep [] item = True"
| "should_keep (filter_item # filter_items) item =
     (if str_in filter_item item then False else should_keep filter_items item)"

fun second_round :: "string list \<Rightarrow> string list \<Rightarrow> string list" where
  "second_round [] filtered_list_links = filtered_list_links"
| "second_round (item # list_links_filtered) filtered_list_links =
     (if should_keep second_round_filter item
      then second_round list_links_filtered (filtered_list_links @ [item])
      else second_round list_links_filtered filtered_list_links)"

definition filter_links :: "string list \<Rightarrow> string list" where
  "filter_links list_links = second_round (first_round list_links []) []"

section \<open>helpers.py: one page, and the subpages of a page\<close>

type_synonym matches = "string list \<times> int \<times> string list \<times> int"

definition find_all_matches ::
  "site \<Rightarrow> string list \<Rightarrow> string \<Rightarrow> string list \<Rightarrow> py_error + (matches \<times> string list)" where
  "find_all_matches site military_terminology title requests =
     (let (soup, requests) = scrape_page site title requests in
      case get_words_from_paragraphs soup of
        Inl error \<Rightarrow> Inl error
      | Inr words_list \<Rightarrow>
          (let cleaned_words_list = clean_words_list words_list;
               total_words = [] @ cleaned_words_list in
           case find_bullet_words soup of
             Inl error \<Rightarrow> Inl error
           | Inr bullet_lists \<Rightarrow>
               (let cleaned_bullet_lists = clean_bullet_list bullet_lists;
                    total_words = total_words @ cleaned_bullet_lists;
                    (match_count_1, matched_words_1) =
                       find_keyword_matches cleaned_words_list military_terminology;
                    all_matched_words = [] @ matched_words_1;
                    total_match_count = 0 + match_count_1;
                    (match_count_2, matched_words_2) =
                       find_keyword_matches cleaned_bullet_lists military_terminology;
                    all_matched_words = all_matched_words @ matched_words_2;
                    total_match_count = total_match_count + match_count_2;
                    total_word_count = int (length total_words)
                in Inr ((all_matched_words, total_match_count, total_words, total_word_count),
                        requests))))"

fun subpages_loop ::
  "site \<Rightarrow> string list \<Rightarrow> string list \<Rightarrow> matches \<Rightarrow> string list
     \<Rightarrow> py_error + (matches \<times> string list)" where
  "subpages_loop site military_terminology []
       (initial_matched_words, initial_match_count, initial_words, initial_word_count) requests =
     Inr ((initial_matched_words, initial_match_count, initial_words, initial_word_count),
          requests)"
| "subpages_loop site military_terminology (link # filtered_links)
       (initial_matched_words, initial_match_count, initial_words, initial_word_count) requests =
     (case find_all_matches site military_terminology (drop 6 link) requests of
        Inl error \<Rightarrow> Inl error
      | Inr ((matched_words, match_count, words, word_count), requests) \<Rightarrow>
          subpages_loop site military_terminology filtered_links
            (initial_matched_words @ matched_words, initial_match_count + match_count,
             initial_words @ words, initial_word_count + word_count) requests)"

definition search_subpages ::
  "site \<Rightarrow> string list \<Rightarrow> string \<Rightarrow> matches \<Rightarrow> string list
     \<Rightarrow> py_error + (matches \<times> string list)" where
  "search_subpages site military_terminology title initial requests =
     (let (soup, requests) = scrape_page site title requests in
      case find_links soup of
        Inl error \<Rightarrow> Inl error
      | Inr links \<Rightarrow>
          subpages_loop site military_terminology (filter_links links) initial requests)"


section \<open>results.py: the aggregate of a discipline and the dictionary of aggregates\<close>

record aggregate =
  final_matched_words :: "string list"
  final_match_count :: int
  total_words :: "string list"
  total_word_count :: int

text \<open>
  A Python \<open>dict\<close> keeps its keys in the order of their first insertion. It is
  modelled as the list of its items in that order, with no key twice.
\<close>

type_synonym ('k, 'v) dict = "('k \<times> 'v) list"

fun dict_set :: "('k, 'v) dict \<Rightarrow> 'k \<Rightarrow> 'v \<Rightarrow> ('k, 'v) dict" where
  \<comment> \<open>\<open>d[k] = v\<close>\<close>
  "dict_set [] k v = [(k, v)]"
| "dict_set ((k', v') # d) k v = (if k' = k then (k', v) # d else (k', v') # dict_set d k v)"


fun process_disciplines_loop ::
  "site \<Rightarrow> string list \<Rightarrow> string list \<Rightarrow> (string, aggregate) dict \<Rightarrow> string list
     \<Rightarrow> py_error + ((string, aggregate) dict \<times> string list)" where
  "process_disciplines_loop site military_terminology [] discipline_matches requests =
     Inr (discipline_matches, requests)"
| "process_disciplines_loop site military_terminology (discipline # engineering_disciplines)
       discipline_matches requests =
     (let title = discipline in
      case find_all_matches site military_terminology title requests of
        Inl error \<Rightarrow> Inl error
      | Inr (initial, requests) \<Rightarrow>
          (case search_subpages site military_terminology title initial requests of
             Inl error \<Rightarrow> Inl error
           | Inr ((matched_words, match_count, words, word_count), requests) \<Rightarrow>
               process_disciplines_loop site military_terminology engineering_disciplines
                 (dict_set discipline_matches discipline
                    \<lparr>final_matched_words = matched_words,
                     final_match_count = match_count,
                     total_words = words,
                     total_word_count = word_count\<rparr>)
                 requests))"

definition process_disciplines ::
  "site \<Rightarrow> string list \<Rightarrow> string list \<Rightarrow> string list
     \<Rightarrow> py_error + ((string, aggregate) dict \<times> string list)" where
  "process_disciplines site military_terminology engineering_disciplines requests =
     process_disciplines_loop site military_terminology engineering_disciplines [] requests"

section \<open>results.py: writing the four files\<close>









section \<open>results.py: reading the four files\<close>
















section \<open>results.py: the percentages of the stacked bar graph\<close>

definition true_divide :: "int \<Rightarrow> int \<Rightarrow> py_error + rat" where
  \<comment> \<open>\<open>a / b\<close> on two integers: a zero divisor raises ZeroDivisionError, a quotient
      that rounds beyond the largest double raises OverflowError. The value kept here
      is the exact quotient, of which Python holds the nearest double.\<close>
  "true_divide a b =
     (if b = 0 then Inl ZeroDivisionError
      else if (2 ^ 1024 - 2 ^ 970) * \<bar>b\<bar> \<le> \<bar>a\<bar> then Inl OverflowError
      else Inr (of_int a / of_int b))"

fun percentages_loop ::
  "aggregate list \<Rightarrow> rat list \<times> int list \<times> int list
     \<Rightarrow> py_error + (rat list \<times> int list \<times> int list)" where
  "percentages_loop [] (percentages, total_word_counts, match_counts) =
     Inr (percentages, total_word_counts, match_counts)"
| "percentages_loop (counts # values) (percentages, total_word_counts, match_counts) =
     (case true_divide (final_match_count counts) (total_word_count counts) of
        Inl error \<Rightarrow> Inl error
      | Inr ratio \<Rightarrow>
          percentages_loop values
            (percentages @ [ratio * 100],
             total_word_counts @ [total_word_count counts],
             match_counts @ [final_match_count counts]))"

definition plot_stacked_bar_graph ::
  "(string, aggregate) dict \<Rightarrow> py_error + (rat list \<times> int list \<times> int list)" where
  \<comment> \<open>the three lists the function computes before it draws\<close>
  "plot_stacked_bar_graph discipline_matches =
     percentages_loop (map snd discipline_matches) ([], [], [])"


section \<open>A small site\<close>

text \<open>
  Three titles: \<open>Engineering\<close> links to \<open>Tank\<close> (and to a help page, to the home page
  and to a fragment, none of which is followed); \<open>Tank\<close> links to \<open>Navy\<close>; the
  request for \<open>Navy\<close> times out. Every other title is answered with an HTTP error.
\<close>

definition example_site :: site where
  "example_site title =
     (if title = ''Engineering'' then
        Page \<lparr>p_texts = [''The army (Navy).[1]''],
              ul_elements = [\<lparr>previous_sibling_p = True, next_sibling_p = True,
                               li_texts = [''Tank war[2]'']\<rparr>,
                             \<lparr>previous_sibling_p = False, next_sibling_p = True,
                               li_texts = [''navy'']\<rparr>],
              a_hrefs = [Some ''/wiki/Tank'', None, Some ''#top'',
                         Some ''/wiki/Help:Contents'', Some ''/wiki/Main_page'']\<rparr>
      else if title = ''Tank'' then
        Page \<lparr>p_texts = [''A tank.''], ul_elements = [], a_hrefs = [Some ''/wiki/Navy'']\<rparr>
      else if title = ''Navy'' then Timeout
      else HTTPError)"

definition example_keywords :: "string list" where
  "example_keywords = [''army'', ''navy'', ''tank'', ''war'']"

section \<open>Properties of the text cleaner\<close>

lemma clean_characters_set:
  "set (clean_characters word i skip_next cleaned)
     \<subseteq> set cleaned \<union> {c \<in> set word. c \<notin> set filter_out \<and> c \<noteq> CHR ''[''}"
proof (induction word i skip_next cleaned rule: clean_characters.induct)
  case (1 word i skip_next cleaned)
  let ?K = "{c \<in> set word. c \<notin> set filter_out \<and> c \<noteq> CHR ''[''}"
  show ?case
  proof (cases "i < length word")
    case False
    then show ?thesis by (subst clean_characters.simps) simp
  next
    case True
    then have mem: "word ! i \<in> set word" by simp
    consider (skip) "skip_next"
      | (punct) "\<not> skip_next" "word ! i \<in> set filter_out"
      | (cite) "\<not> skip_next" "word ! i \<notin> set filter_out" "word ! i = CHR ''[''"
      | (keep) "\<not> skip_next" "word ! i \<notin> set filter_out" "word ! i \<noteq> CHR ''[''"
      by blast
    then show ?thesis
    proof cases
      case skip
      with True "1.IH"(1) show ?thesis by (subst clean_characters.simps) simp
    next
      case punct
      with True "1.IH"(2) show ?thesis by (subst clean_characters.simps) simp
    next
      case cite
      with True "1.IH"(3) show ?thesis by (subst clean_characters.simps) simp
    next
      case keep
      have eq: "clean_characters word i skip_next cleaned
          = clean_characters word (i + 1) False (cleaned @ [word ! i])"
        using True keep by (subst clean_characters.simps) simp
      have "set (clean_characters word (i + 1) False (cleaned @ [word ! i]))
          \<subseteq> set (cleaned @ [word ! i]) \<union> ?K"
        using True keep by (intro "1.IH"(4)) simp_all
      also have "\<dots> \<subseteq> set cleaned \<union> ?K"
        using keep mem by auto
      finally show ?thesis by (simp only: eq)
    qed
  qed
qed

lemma clean_characters_plain:
  assumes "\<forall>c \<in> set word. c \<notin> set filter_out \<and> c \<noteq> CHR ''[''"
  shows "clean_characters word i False cleaned = cleaned @ drop i word"
  using assms
proof (induction "length word - i" arbitrary: i cleaned)
  case 0
  then show ?case by (subst clean_characters.simps) simp
next
  case (Suc n)
  then have i: "i < length word" by simp
  then have mem: "word ! i \<in> set word" by simp
  have "clean_characters word i False cleaned = clean_characters word (i + 1) False (cleaned @ [word ! i])"
    using i mem Suc.prems by (subst clean_characters.simps) auto
  also have "\<dots> = (cleaned @ [word ! i]) @ drop (i + 1) word"
    using Suc by (intro Suc.hyps) auto
  also have "\<dots> = cleaned @ drop i word"
    using i by (simp add: Cons_nth_drop_Suc)
  finally show ?case .
qed

lemma clean_words_loop_eq:
  "clean_words_loop words_list acc = acc @ filter (\<lambda>w. w \<noteq> []) (map clean_word words_list)"
  by (induction words_list arbitrary: acc) (auto simp: Let_def)

lemma clean_word_set:
  "set (clean_word word) \<subseteq> {c \<in> set word. c \<notin> set filter_out \<and> c \<noteq> CHR ''[''}"
  using clean_characters_set [of word 0 False "[]"] by (simp add: clean_word_def)

lemma clean_word_plain:
  assumes "\<forall>c \<in> set word. c \<notin> set filter_out \<and> c \<noteq> CHR ''[''"
  shows "clean_word word = word"
  using clean_characters_plain [OF assms, of 0 "[]"] by (simp add: clean_word_def)

lemma clean_word_idem: "clean_word (clean_word word) = clean_word word"
  using clean_word_set [of word] by (intro clean_word_plain) blast

lemma clean_words_list_eq:
  "clean_words_list words_list = filter (\<lambda>w. w \<noteq> []) (map clean_word words_list)"
  by (simp add: clean_words_list_def clean_words_loop_eq)

text \<open>
  C3. The cleaned list is the list of the cleaned words of the tokens, in the order of
  the tokens, without the empty ones; no word of it is empty, holds a character of
  the punctuation set, or holds an opening bracket.
\<close>

theorem clean_words_list_clean:
  "clean_words_list words_list = filter (\<lambda>w. w \<noteq> []) (map clean_word words_list)
   \<and> (\<forall>w \<in> set (clean_words_list words_list).
         w \<noteq> [] \<and> set w \<inter> set filter_out = {} \<and> CHR ''['' \<notin> set w)"
proof (intro conjI ballI)
  show "clean_words_list words_list = filter (\<lambda>w. w \<noteq> []) (map clean_word words_list)"
    by (rule clean_words_list_eq)
next
  fix w
  assume "w \<in> set (clean_words_list words_list)"
  then obtain word where w: "w = clean_word word" and ne: "w \<noteq> []"
    by (auto simp: clean_words_list_eq)
  show "w \<noteq> []" by (rule ne)
  show "set w \<inter> set filter_out = {}"
    using clean_word_set [of word] unfolding w by blast
  show "CHR ''['' \<notin> set w"
    using clean_word_set [of word] unfolding w by blast
qed

theorem clean_words_list_clean_witness:
  "''citations'' \<in> set (clean_words_list [''citations.[3]'', ''---''])
   \<and> set ''citations'' \<inter> set filter_out = {} \<and> CHR ''['' \<notin> set ''citations''"
proof -
  have "''citations'' \<in> set (clean_words_list [''citations.[3]'', ''---''])"
    by code_simp
  with clean_words_list_clean [of "[''citations.[3]'', ''---'']"] show ?thesis
    by blast
qed

text \<open>
  C6. Cleaning is idempotent: cleaning a cleaned list gives the same list.
\<close>

theorem clean_words_list_idempotent:
  "clean_words_list (clean_words_list words_list) = clean_words_list words_list"
proof -
  let ?ws = "filter (\<lambda>w. w \<noteq> []) (map clean_word words_list)"
  have "map clean_word ?ws = ?ws"
    by (rule map_idI) (auto simp: clean_word_idem)
  then show ?thesis
    by (simp add: clean_words_list_eq)
qed

text \<open>
  C10. A closing bracket with no opening bracket before it in its token is kept: it
  is not in the punctuation set, and the token \<open>a]b\<close> is returned as it is.
\<close>

theorem closing_bracket_survives:
  "clean_words_list [''a]b''] = [''a]b''] \<and> CHR '']'' \<notin> set filter_out"
  by code_simp

section \<open>Properties of the link filter\<close>

lemma startswith_prefix: "startswith s p = prefix p s"
  by (induction s p rule: startswith.induct) auto

lemma str_in_sublist: "str_in sub s = sublist sub s"
  by (induction s) (auto simp: startswith_prefix sublist_Cons_right)

lemma str_in_char: "str_in [c] s = (c \<in> set s)"
  by (induction s) (auto simp: startswith_prefix)

lemma first_round_eq:
  "first_round list_links acc = acc @ filter (\<lambda>item. startswith item ''/wiki/'') list_links"
  by (induction list_links arbitrary: acc) auto

lemma second_round_eq:
  "second_round list_links acc = acc @ filter (should_keep second_round_filter) list_links"
  by (induction list_links arbitrary: acc) auto

lemma should_keep_eq:
  "should_keep second_round_filter item
     = (\<not> sublist ''/wiki/Main_page'' item \<and> CHR '':'' \<notin> set item)"
proof -
  have "str_in '':'' item = (CHR '':'' \<in> set item)"
    by (rule str_in_char)
  moreover have "str_in ''/wiki/Main_page'' item = sublist ''/wiki/Main_page'' item"
    by (rule str_in_sublist)
  ultimately show ?thesis
    by (simp add: second_round_filter_def del: str_in.simps)
qed

text \<open>
  C2, as the code has it. The links returned are those that start with \<open>/wiki/\<close>, do
  not contain \<open>/wiki/Main_page\<close> anywhere and do not contain a colon anywhere, in the
  order of the input and as often as they occur there.
\<close>

theorem filter_links_contains:
  "filter_links list_links =
     filter (\<lambda>item. prefix ''/wiki/'' item \<and> \<not> sublist ''/wiki/Main_page'' item
                      \<and> CHR '':'' \<notin> set item) list_links"
  by (simp add: filter_links_def first_round_eq second_round_eq should_keep_eq
      startswith_prefix del: startswith.simps)

text \<open>
  The link \<open>/wiki/Main_pages\<close> starts with the prefix, is not equal to the link of the
  home page and has no colon, and it is dropped.
\<close>

theorem filter_links_equal_counterexample:
  "filter_links [''/wiki/Main_pages''] = []
   \<and> prefix ''/wiki/'' ''/wiki/Main_pages''
   \<and> ''/wiki/Main_pages'' \<noteq> ''/wiki/Main_page''
   \<and> CHR '':'' \<notin> set ''/wiki/Main_pages''"
  by code_simp

section \<open>Properties of the keyword matcher\<close>

lemma keyword_loop_eq:
  "keyword_loop words_list keyword_list match_count matched_words =
     (match_count + int (length (filter (\<lambda>w. w \<in> set keyword_list) (map lower words_list))),
      matched_words @ filter (\<lambda>w. w \<in> set keyword_list) (map lower words_list))"
  by (induction words_list arbitrary: match_count matched_words) (auto simp: Let_def)



section \<open>Properties of the traversal\<close>

lemma find_keyword_matches_fst:
  "fst (find_keyword_matches words_list keyword_list)
     = int (length (snd (find_keyword_matches words_list keyword_list)))"
  by (simp add: find_keyword_matches_def keyword_loop_eq)

lemma find_keyword_matches_count:
  "find_keyword_matches words_list keyword_list = (match_count, matched_words)
     \<Longrightarrow> match_count = int (length matched_words)"
  using find_keyword_matches_fst [of words_list keyword_list] by simp

lemma find_all_matches_failed:
  assumes "\<forall>page. site title \<noteq> Page page"
  shows "find_all_matches site military_terminology title requests = Inl AttributeError"
  using assms
  by (cases "site title")
     (simp_all add: find_all_matches_def scrape_page_def get_words_from_paragraphs_def)

lemma find_all_matches_counts:
  assumes "find_all_matches site military_terminology title requests
             = Inr ((matched_words, match_count, words, word_count), requests')"
  shows "match_count = int (length matched_words) \<and> word_count = int (length words)
         \<and> requests' = requests @ [title]"
  using assms
  by (auto simp: find_all_matches_def scrape_page_def Let_def
      split: sum.splits prod.splits dest!: find_keyword_matches_count)

lemma find_all_matches_requests:
  "find_all_matches site military_terminology title requests =
     (case find_all_matches site military_terminology title [] of
        Inl error \<Rightarrow> Inl error
      | Inr (result, _) \<Rightarrow> Inr (result, requests @ [title]))"
  by (auto simp: find_all_matches_def scrape_page_def Let_def split: sum.splits prod.splits)

lemma subpages_loop_counts:
  assumes "subpages_loop site military_terminology filtered_links
             (initial_matched_words, initial_match_count, initial_words, initial_word_count)
             requests
           = Inr ((matched_words, match_count, words, word_count), requests')"
    and "initial_match_count = int (length initial_matched_words)"
    and "initial_word_count = int (length initial_words)"
  shows "match_count = int (length matched_words) \<and> word_count = int (length words)"
  using assms
proof (induction filtered_links arbitrary: initial_matched_words initial_match_count
    initial_words initial_word_count requests)
  case Nil
  then show ?case by auto
next
  case (Cons link filtered_links)
  from Cons.prems(1) obtain mw mc w wc rq where
    page: "find_all_matches site military_terminology (drop 6 link) requests
             = Inr ((mw, mc, w, wc), rq)"
    and rest: "subpages_loop site military_terminology filtered_links
             (initial_matched_words @ mw, initial_match_count + mc, initial_words @ w,
              initial_word_count + wc) rq
           = Inr ((matched_words, match_count, words, word_count), requests')"
    by (auto split: sum.splits)
  from find_all_matches_counts [OF page] have "mc = int (length mw)" "wc = int (length w)"
    by simp_all
  with Cons.prems(2,3) show ?case
    by (intro Cons.IH [OF rest]) simp_all
qed

lemma subpages_loop_sum:
  assumes "list_all2 (\<lambda>link result. \<forall>requests.
             find_all_matches site military_terminology (drop 6 link) requests
               = Inr (result, requests @ [drop 6 link])) filtered_links results"
  shows "subpages_loop site military_terminology filtered_links
           (initial_matched_words, initial_match_count, initial_words, initial_word_count)
           requests
         = Inr ((initial_matched_words @ concat (map (\<lambda>(mw, mc, w, wc). mw) results),
                 initial_match_count + sum_list (map (\<lambda>(mw, mc, w, wc). mc) results),
                 initial_words @ concat (map (\<lambda>(mw, mc, w, wc). w) results),
                 initial_word_count + sum_list (map (\<lambda>(mw, mc, w, wc). wc) results)),
                requests @ map (drop 6) filtered_links)"
  using assms
proof (induction filtered_links results arbitrary: initial_matched_words initial_match_count
    initial_words initial_word_count requests rule: list_all2_induct)
  case Nil
  then show ?case by simp
next
  case (Cons link filtered_links result results)
  obtain mw mc w wc where result: "result = (mw, mc, w, wc)"
    by (cases result)
  from Cons.hyps(1) have "find_all_matches site military_terminology (drop 6 link) requests
      = Inr ((mw, mc, w, wc), requests @ [drop 6 link])"
    by (simp add: result)
  then show ?case
    by (simp add: Cons.IH result add.assoc)
qed

lemma example_engineering:
  "find_all_matches example_site example_keywords ''Engineering'' [] =
     Inr (([''army'', ''navy'', ''tank'', ''war''], 4,
           [''The'', ''army'', ''Navy'', ''Tank'', ''war''], 5), [''Engineering''])"
  by code_simp

lemma example_tank:
  "find_all_matches example_site example_keywords ''Tank'' [] =
     Inr (([''tank''], 1, [''A'', ''tank''], 2), [''Tank''])"
  by code_simp

lemma example_subpages:
  "search_subpages example_site example_keywords ''Engineering''
     ([''army'', ''navy'', ''tank'', ''war''], 4, [''The'', ''army'', ''Navy'', ''Tank'', ''war''], 5)
     [''Engineering''] =
   Inr (([''army'', ''navy'', ''tank'', ''war'', ''tank''], 5,
         [''The'', ''army'', ''Navy'', ''Tank'', ''war'', ''A'', ''tank''], 7),
        [''Engineering'', ''Engineering'', ''Tank''])"
  by code_simp

text \<open>
  C4. The match count that find_keyword_matches returns is the length of the matched
  words it returns; a result of find_all_matches has its match count equal to the
  length of its matched words and its word count equal to the length of its words;
  and a result of search_subpages has the same, when the four fields it was given
  have it (as the result of find_all_matches for the seed page has).
\<close>

theorem counts_equal_lengths:
  "fst (find_keyword_matches words_list keyword_list)
     = int (length (snd (find_keyword_matches words_list keyword_list)))
   \<and> (find_all_matches site military_terminology title requests
         = Inr ((matched_words, match_count, words, word_count), requests')
       \<longrightarrow> match_count = int (length matched_words) \<and> word_count = int (length words))
   \<and> (initial_match_count = int (length initial_matched_words)
       \<and> initial_word_count = int (length initial_words)
       \<and> search_subpages site military_terminology title
            (initial_matched_words, initial_match_count, initial_words, initial_word_count)
            requests
         = Inr ((final_matched_words', final_match_count', total_words', total_word_count'),
                requests'')
       \<longrightarrow> final_match_count' = int (length final_matched_words')
           \<and> total_word_count' = int (length total_words'))"
proof (intro conjI impI)
  show "fst (find_keyword_matches words_list keyword_list)
     = int (length (snd (find_keyword_matches words_list keyword_list)))"
    by (rule find_keyword_matches_fst)
next
  assume "find_all_matches site military_terminology title requests
         = Inr ((matched_words, match_count, words, word_count), requests')"
  from find_all_matches_counts [OF this]
  show "match_count = int (length matched_words)" and "word_count = int (length words)"
    by simp_all
next
  assume a: "initial_match_count = int (length initial_matched_words)
       \<and> initial_word_count = int (length initial_words)
       \<and> search_subpages site military_terminology title
            (initial_matched_words, initial_match_count, initial_words, initial_word_count)
            requests
         = Inr ((final_matched_words', final_match_count', total_words', total_word_count'),
                requests'')"
  then obtain links where "subpages_loop site military_terminology (filter_links links)
            (initial_matched_words, initial_match_count, initial_words, initial_word_count)
            (requests @ [title])
         = Inr ((final_matched_words', final_match_count', total_words', total_word_count'),
                requests'')"
    by (auto simp: search_subpages_def scrape_page_def split: sum.splits)
  from subpages_loop_counts [OF this] a
  show "final_match_count' = int (length final_matched_words')"
    and "total_word_count' = int (length total_words')"
    by simp_all
qed

theorem counts_equal_lengths_witness:
  "find_all_matches example_site example_keywords ''Engineering'' [] =
     Inr (([''army'', ''navy'', ''tank'', ''war''], 4,
           [''The'', ''army'', ''Navy'', ''Tank'', ''war''], 5), [''Engineering''])
   \<and> search_subpages example_site example_keywords ''Engineering''
        ([''army'', ''navy'', ''tank'', ''war''], 4,
         [''The'', ''army'', ''Navy'', ''Tank'', ''war''], 5) [''Engineering''] =
      Inr (([''army'', ''navy'', ''tank'', ''war'', ''tank''], 5,
            [''The'', ''army'', ''Navy'', ''Tank'', ''war'', ''A'', ''tank''], 7),
           [''Engineering'', ''Engineering'', ''Tank''])
   \<and> (4::int) = int (length [''army'', ''navy'', ''tank'', ''war''])
   \<and> (5::int) = int (length [''army'', ''navy'', ''tank'', ''war'', ''tank''])
   \<and> (7::int) = int (length [''The'', ''army'', ''Navy'', ''Tank'', ''war'', ''A'', ''tank''])"
proof -
  note page = example_engineering and subpages = example_subpages
  have seed: "(4::int) = int (length [''army'', ''navy'', ''tank'', ''war''])
      \<and> (5::int) = int (length [''The'', ''army'', ''Navy'', ''Tank'', ''war''])"
    by (rule counts_equal_lengths [THEN conjunct2, THEN conjunct1, rule_format, OF page])
  have "(5::int) = int (length [''army'', ''navy'', ''tank'', ''war'', ''tank''])
      \<and> (7::int) = int (length [''The'', ''army'', ''Navy'', ''Tank'', ''war'', ''A'', ''tank''])"
    by (rule counts_equal_lengths [THEN conjunct2, THEN conjunct2, rule_format])
       (intro conjI, rule seed [THEN conjunct1], rule seed [THEN conjunct2], rule subpages)
  with page subpages seed show ?thesis
    by (intro conjI) (erule conjE | assumption)+
qed

text \<open>
  C8. When the seed page is fetched and every page it links to (after filtering)
  gives a result, search_subpages returns the four fields it was given with the
  results of the linked pages added in the order of the links, one result for each
  link; and it has requested the seed page and then the title of each filtered link
  (the link without its first six characters), once each, and nothing else.
\<close>

theorem search_subpages_one_hop:
  assumes "site title = Page page"
    and "find_links (Some page) = Inr links"
    and "list_all2 (\<lambda>link result. \<forall>requests.
           find_all_matches site military_terminology (drop 6 link) requests
             = Inr (result, requests @ [drop 6 link])) (filter_links links) results"
  shows "search_subpages site military_terminology title
           (initial_matched_words, initial_match_count, initial_words, initial_word_count)
           requests
         = Inr ((initial_matched_words @ concat (map (\<lambda>(mw, mc, w, wc). mw) results),
                 initial_match_count + sum_list (map (\<lambda>(mw, mc, w, wc). mc) results),
                 initial_words @ concat (map (\<lambda>(mw, mc, w, wc). w) results),
                 initial_word_count + sum_list (map (\<lambda>(mw, mc, w, wc). wc) results)),
                requests @ title # map (drop 6) (filter_links links))"
  using assms(1,2) subpages_loop_sum [OF assms(3)]
  by (simp add: search_subpages_def scrape_page_def)

theorem search_subpages_one_hop_witness:
  "search_subpages example_site example_keywords ''Engineering''
        ([''army'', ''navy'', ''tank'', ''war''], 4,
         [''The'', ''army'', ''Navy'', ''Tank'', ''war''], 5) [''Engineering''] =
      Inr (([''army'', ''navy'', ''tank'', ''war'', ''tank''], 5,
            [''The'', ''army'', ''Navy'', ''Tank'', ''war'', ''A'', ''tank''], 7),
           [''Engineering'', ''Engineering'', ''Tank''])"
proof -
  let ?page = "\<lparr>p_texts = [''The army (Navy).[1]''],
              ul_elements = [\<lparr>previous_sibling_p = True, next_sibling_p = True,
                               li_texts = [''Tank war[2]'']\<rparr>,
                             \<lparr>previous_sibling_p = False, next_sibling_p = True,
                               li_texts = [''navy'']\<rparr>],
              a_hrefs = [Some ''/wiki/Tank'', None, Some ''#top'',
                         Some ''/wiki/Help:Contents'', Some ''/wiki/Main_page'']\<rparr>"
  let ?links = "[''/wiki/Tank'', ''#top'', ''/wiki/Help:Contents'', ''/wiki/Main_page'']"
  have page: "example_site ''Engineering'' = Page ?page"
    by (simp add: example_site_def)
  have links: "find_links (Some ?page) = Inr ?links"
    by (simp add: find_links_def)
  have filtered: "filter_links ?links = [''/wiki/Tank'']"
    by code_simp
  have tank: "\<forall>requests. find_all_matches example_site example_keywords ''Tank'' requests
      = Inr (([''tank''], 1, [''A'', ''tank''], 2), requests @ [''Tank''])"
    by (subst find_all_matches_requests) (simp add: example_tank)
  have "list_all2 (\<lambda>link result. \<forall>requests.
           find_all_matches example_site example_keywords (drop 6 link) requests
             = Inr (result, requests @ [drop 6 link])) (filter_links ?links)
           [([''tank''], 1, [''A'', ''tank''], 2)]"
    using tank by (simp add: filtered)
  from search_subpages_one_hop [OF page links this,
      of "[''army'', ''navy'', ''tank'', ''war'']" 4
         "[''The'', ''army'', ''Navy'', ''Tank'', ''war'']" 5 "[''Engineering'']"]
  show ?thesis
    by (simp add: filtered)
qed

text \<open>
  C1, on the code. The request for \<open>Navy\<close> times out: scrape_page returns \<open>None\<close>,
  find_all_matches raises AttributeError at its first query of the page, and
  search_subpages from \<open>Tank\<close>, whose only link is to \<open>Navy\<close>, raises it too.
\<close>

theorem fetch_failure_raises:
  "example_site ''Navy'' = Timeout
   \<and> scrape_page example_site ''Navy'' [] = (None, [''Navy''])
   \<and> find_all_matches example_site example_keywords ''Navy'' [] = Inl AttributeError
   \<and> search_subpages example_site example_keywords ''Tank''
        ([''tank''], 1, [''A'', ''tank''], 2) [''Tank''] = Inl AttributeError"
proof -
  have navy: "example_site ''Navy'' = Timeout"
    by (simp add: example_site_def)
  have page: "find_all_matches example_site example_keywords ''Navy'' requests
      = Inl AttributeError" for requests
    by (rule find_all_matches_failed) (simp add: navy)
  have tank: "example_site ''Tank''
      = Page \<lparr>p_texts = [''A tank.''], ul_elements = [], a_hrefs = [Some ''/wiki/Navy'']\<rparr>"
    by (simp add: example_site_def)
  have links: "filter_links [''/wiki/Navy''] = [''/wiki/Navy'']"
    by code_simp
  have "search_subpages example_site example_keywords ''Tank''
        ([''tank''], 1, [''A'', ''tank''], 2) [''Tank''] = Inl AttributeError"
    by (simp add: search_subpages_def scrape_page_def find_links_def tank links page)
  with navy page show ?thesis
    by (simp add: scrape_page_def)
qed

section \<open>Properties of the percentages\<close>

lemma percentages_loop_zero:
  assumes "counts \<in> set vals" and "total_word_count counts = 0"
  shows "percentages_loop vals acc = Inl ZeroDivisionError
         \<or> (percentages_loop vals acc = Inl OverflowError
             \<and> (\<exists>c \<in> set vals.
                   true_divide (final_match_count c) (total_word_count c) = Inl OverflowError))"
  using assms
proof (induction vals arbitrary: acc)
  case Nil
  then show ?case by simp
next
  case (Cons c vals)
  obtain percentages total_word_counts match_counts
    where acc: "acc = (percentages, total_word_counts, match_counts)"
    by (cases acc)
  show ?case
  proof (cases "true_divide (final_match_count c) (total_word_count c)")
    case (Inl error)
    then have "error = ZeroDivisionError \<or> error = OverflowError"
      by (auto simp: true_divide_def split: if_splits)
    with Inl show ?thesis
      by (auto simp: acc)
  next
    case (Inr ratio)
    then have "total_word_count c \<noteq> 0"
      by (auto simp: true_divide_def split: if_splits)
    with Cons.prems have "counts \<in> set vals"
      by auto
    from Cons.IH [OF this Cons.prems(2)] Inr show ?thesis
      by (auto simp: acc)
  qed
qed

text \<open>
  C9. When the dictionary holds a discipline whose total word count is zero, the
  computation of the percentages raises an arithmetic error and draws nothing: the
  division is not guarded. The error is ZeroDivisionError when no discipline has a
  quotient too large for a double (such a quotient, met first, raises OverflowError).
\<close>

theorem plot_stacked_bar_graph_zero_division:
  assumes "(discipline, counts) \<in> set discipline_matches"
    and "total_word_count counts = 0"
  shows "(\<exists>error. plot_stacked_bar_graph discipline_matches = Inl error)
         \<and> ((\<forall>(d, c) \<in> set discipline_matches.
                true_divide (final_match_count c) (total_word_count c) \<noteq> Inl OverflowError)
              \<longrightarrow> plot_stacked_bar_graph discipline_matches = Inl ZeroDivisionError)"
proof -
  from assms(1) have "counts \<in> set (map snd discipline_matches)"
    by force
  from percentages_loop_zero [OF this assms(2), of "([], [], [])"]
  show ?thesis
    unfolding plot_stacked_bar_graph_def by fastforce
qed

theorem plot_stacked_bar_graph_zero_division_witness:
  "plot_stacked_bar_graph
     [(''Mechanical'', \<lparr>final_matched_words = [''war''], final_match_count = 1,
                        total_words = [''a'', ''war''], total_word_count = 2\<rparr>),
      (''Civil'', \<lparr>final_matched_words = [], final_match_count = 0,
                   total_words = [], total_word_count = 0\<rparr>)]
   = Inl ZeroDivisionError"
proof -
  let ?civil = "\<lparr>final_matched_words = [], final_match_count = 0,
                   total_words = [], total_word_count = 0\<rparr>"
  let ?m = "[(''Mechanical'', \<lparr>final_matched_words = [''war''], final_match_count = 1,
                        total_words = [''a'', ''war''], total_word_count = 2\<rparr>),
      (''Civil'', ?civil)]"
  have mem: "(''Civil'', ?civil) \<in> set ?m"
    by simp
  have zero: "total_word_count ?civil = 0"
    by simp
  have range: "\<forall>(d, c) \<in> set ?m.
      true_divide (final_match_count c) (total_word_count c) \<noteq> Inl OverflowError"
    by (simp add: true_divide_def)
  from plot_stacked_bar_graph_zero_division [OF mem zero, THEN conjunct2, THEN mp, OF range]
  show ?thesis .
qed

text \<open>
  A quotient beyond the range of a double, met before the zero count, raises first.
\<close>

lemma plot_stacked_bar_graph_overflow_first:
  "plot_stacked_bar_graph
     [(''Huge'', \<lparr>final_matched_words = [], final_match_count = 2 ^ 1024,
                        total_words = [], total_word_count = 1\<rparr>),
      (''Civil'', \<lparr>final_matched_words = [], final_match_count = 0,
                   total_words = [], total_word_count = 0\<rparr>)]
   = Inl OverflowError"
  by (simp add: plot_stacked_bar_graph_def true_divide_def)

section \<open>Properties of the four files\<close>





































section \<open>The cases of test_helpers.py\<close>

text \<open>
  The cases of the repository's tests for the cleaner and for the link filter hold of
  the model. (The cases of the keyword matcher need the vocabulary, which is not among
  the sources.)
\<close>

lemma test_clean_words_list:
  "clean_words_list [''Some'', ''example'', ''text'', ''has'', ''citations.[3]'']
     = [''Some'', ''example'', ''text'', ''has'', ''citations'']"
  "clean_words_list [[CHR ''.'', CHR '','', CHR '':'', CHR ''!'', CHR ''?'', CHR '';'',
                      CHR 0x22, CHR ''-'', CHR ''('', CHR '')'']] = []"
  "clean_words_list [''[1][2][3][4][5]''] = []"
  "clean_words_list [''[1]'', ''!'', ''[3]'', ''...''] = []"
  "clean_words_list [''Hello'', ''---''] = [''Hello'']"
  "clean_words_list [''Citation[3]'', ''here'', ''and'', ''punctuation'', ''here.'']
     = [''Citation'', ''here'', ''and'', ''punctuation'', ''here'']"
  by code_simp+

lemma test_clean_bullet_list:
  "clean_bullet_list [''Sometimes, example text has citations.[3][5]'']
     = [''Sometimes'', ''example'', ''text'', ''has'', ''citations'']"
  "clean_bullet_list [''[1][2][3][4][5]'', ''[1234123412341234]''] = []"
  "clean_bullet_list [''Hello World'', ''---'', ''...'', ''()()()''] = [''Hello'', ''World'']"
  by code_simp+

lemma test_filter_links:
  "filter_links [''/wiki/Aerospace-engineering'', ''invalid1'', ''invalid2'', ''invalid3'',
                 ''invalid4''] = [''/wiki/Aerospace-engineering'']"
  "filter_links [''invalid1'', ''invalid2'', ''/wiki/Main_page'', ''/wiki/invalid:''] = []"
  "filter_links [''/wiki/test1'', ''/wiki/test2:'', ''/wiki/Main_page'', ''/wiki/test4'']
     = [''/wiki/test1'', ''/wiki/test4'']"
  "filter_links [''/wiki/test1'', ''/wiki/test2'', ''/wiki/test3'', ''/wiki/test4'',
                 ''/wiki/test5'']
     = [''/wiki/test1'', ''/wiki/test2'', ''/wiki/test3'', ''/wiki/test4'', ''/wiki/test5'']"
  by code_simp+

end
